theory Spec2Isabelle
  imports Main
begin

section \<open>The store of app.py\<close>

text \<open>
  The application keeps all its state in one SQLite file (\<open>DATABASE\<close>, line 17) and every
  route handler is a short sequence of SQL statements on it.  The store is modelled as a
  record of tables, each table a list of rows in insertion (rowid) order, together with the
  AUTOINCREMENT counter of each table.  A handler takes the store and returns the store
  after its \<open>commit\<close> together with the messages it flashes.

  A column declared INTEGER holds whatever SQLite's type affinity makes of the bound
  parameter: a Python \<open>int\<close> is stored as that integer; a form string is stored as an
  integer when it is a numeric literal and is kept as it is otherwise.
\<close>

datatype sqlval = Integer int | NonInteger string

record student =
  s_id :: int
  s_usn :: string
  s_name :: string
  s_email :: string
  s_phone :: string
  s_class :: string
  s_department :: string
  s_parent_name :: string
  s_parent_phone :: string
  s_parent_email :: string

record attendance_row =
  a_id :: int
  a_student_id :: sqlval
  a_date :: string
  a_status :: string

record task =
  t_id :: int
  t_title :: string
  t_description :: string
  t_due_date :: string

record student_task =
  st_id :: int
  st_task_id :: int
  st_student_id :: int
  st_status :: string
  st_completed_date :: "string option"

record subject =
  sub_id :: int
  sub_name :: string
  sub_course :: string
  sub_semester :: sqlval
  sub_description :: string

text \<open>
  \<open>marks_obtained\<close> and \<open>max_marks\<close> are REAL columns fed from form strings; the row keeps
  the submitted text.
\<close>

record mark =
  m_id :: int
  m_student_id :: sqlval
  m_subject_id :: sqlval
  m_exam_type :: string
  m_marks_obtained :: string
  m_max_marks :: string
  m_exam_date :: "string option"
  m_remarks :: string

record database =
  tbl_students :: "student list"
  tbl_attendance :: "attendance_row list"
  tbl_tasks :: "task list"
  tbl_student_tasks :: "student_task list"
  tbl_subjects :: "subject list"
  tbl_marks :: "mark list"
  seq_students :: int
  seq_attendance :: int
  seq_tasks :: int
  seq_student_tasks :: int
  seq_subjects :: int
  seq_marks :: int

text \<open>
  \<open>get_db\<close> (lines 22-27) opens the connection with \<open>sqlite3.connect(DATABASE)\<close> and sets
  the row factory; it issues no \<open>PRAGMA foreign_keys = ON\<close>.  Foreign-key enforcement is a
  setting of the connection and SQLite leaves it off unless the pragma is given, so the
  connection every handler works on has it off.
\<close>

record conn =
  foreign_keys :: bool

definition get_db :: conn where
  "get_db = \<lparr>foreign_keys = False\<rparr>"

text \<open>The subclasses of \<open>sqlite3.IntegrityError\<close> that the schema of \<open>init_db\<close> can raise.\<close>

datatype integrity_error =
    UNIQUE_constraint_failed
  | CHECK_constraint_failed
  | FOREIGN_KEY_constraint_failed

text \<open>The messages the modelled handlers pass to \<open>flash\<close>; the counts are those of the f-strings.\<close>

datatype flash =
    Student_required_fields        \<comment> \<open>'USN, Name, Email, Class, and Department are required.'\<close>
  | Student_added                  \<comment> \<open>'Student added successfully.'\<close>
  | Usn_or_email_exists            \<comment> \<open>'USN or Email already exists.'\<close>
  | Error_adding_student           \<comment> \<open>'Error adding student.'\<close>
  | Student_edit_required_fields   \<comment> \<open>'All fields except phone and parent details are required.'\<close>
  | Usn_or_email_in_use            \<comment> \<open>'USN or Email already in use by another student.'\<close>
  | Student_updated                \<comment> \<open>'Student updated successfully.'\<close>
  | Student_deleted                \<comment> \<open>'Student deleted successfully.'\<close>
  | Attendance_marked              \<comment> \<open>'Attendance marked successfully.'\<close>
  | Attendance_exists              \<comment> \<open>'Attendance for this student on this date already exists.'\<close>
  | Bulk_attendance_marked nat nat \<comment> \<open>'Bulk attendance marked: n new records, k already existed.'\<close>
  | Task_assigned nat              \<comment> \<open>'Task assigned to n new student(s).'\<close>
  | Task_unassigned nat            \<comment> \<open>'Task unassigned from n student(s).'\<close>
  | No_assignment_changes          \<comment> \<open>'No changes made to assignments.'\<close>
  | Subject_required_fields        \<comment> \<open>'Subject name, course, and semester are required.'\<close>
  | Subject_added                  \<comment> \<open>'Subject added successfully.'\<close>
  | Subject_exists                 \<comment> \<open>'Subject with this name, course, and semester already exists.'\<close>
  | Subject_updated                \<comment> \<open>'Subject updated successfully.'\<close>
  | Bulk_marks_required_fields     \<comment> \<open>'Subject and exam type are required.'\<close>
  | Bulk_marks_added nat           \<comment> \<open>'Bulk marks added: n records inserted.'\<close>

subsection \<open>Form values\<close>

text \<open>
  \<open>str.strip()\<close> removes leading and trailing whitespace.  Strings are byte strings here, so
  the whitespace characters are the ASCII ones of \<open>str.isspace\<close>: tab, line feed, vertical tab,
  form feed, carriage return, the separators 28 to 31 and the space.
\<close>

definition is_space :: "char \<Rightarrow> bool" where
  "is_space c = ((of_char c :: nat) \<in> {9, 10, 11, 12, 13, 28, 29, 30, 31, 32})"

definition strip :: "string \<Rightarrow> string" where
  "strip s = rev (dropWhile is_space (rev (dropWhile is_space s)))"

text \<open>\<open>request.form.get(key, '')\<close>: the field, or the empty string when the form has none.\<close>

definition form_get :: "string option \<Rightarrow> string" where
  "form_get v = (case v of None \<Rightarrow> [] | Some s \<Rightarrow> s)"

record student_form =
  f_usn :: string
  f_name :: string
  f_email :: string
  f_phone :: string
  f_class :: string
  f_department :: string
  f_parent_name :: "string option"
  f_parent_phone :: "string option"
  f_parent_email :: "string option"

subsection \<open>Statements on students\<close>


text \<open>\<open>SELECT id FROM students WHERE (usn = ? OR email = ?) AND id != ?\<close>, all rows.\<close>

definition select_student_conflicts :: "database \<Rightarrow> string \<Rightarrow> string \<Rightarrow> int \<Rightarrow> int list" where
  "select_student_conflicts db usn email i =
     map s_id (filter (\<lambda>r. (s_usn r = usn \<or> s_email r = email) \<and> s_id r \<noteq> i) (tbl_students db))"

text \<open>\<open>UPDATE students SET ... WHERE id=?\<close>, under the same two \<open>UNIQUE\<close> constraints.\<close>

definition update_student :: "database \<Rightarrow> int \<Rightarrow> student \<Rightarrow> integrity_error + database" where
  "update_student db i row =
     (if i \<in> set (map s_id (tbl_students db)) \<and> select_student_conflicts db (s_usn row) (s_email row) i \<noteq> []
      then Inl UNIQUE_constraint_failed
      else Inr (db\<lparr>tbl_students :=
                     map (\<lambda>r. if s_id r = i then row\<lparr>s_id := i\<rparr> else r) (tbl_students db)\<rparr>))"

text \<open>
  \<open>DELETE FROM students WHERE id = ?\<close>.  The child tables declare
  \<open>FOREIGN KEY (student_id) REFERENCES students (id) ON DELETE CASCADE\<close> (lines 100, 124, 151);
  SQLite carries the cascade out only on a connection that enforces foreign keys.
\<close>

definition delete_student_row :: "conn \<Rightarrow> database \<Rightarrow> int \<Rightarrow> database" where
  "delete_student_row c db i =
     (let db' = db\<lparr>tbl_students := filter (\<lambda>r. s_id r \<noteq> i) (tbl_students db)\<rparr>
      in if foreign_keys c
         then db'\<lparr>tbl_attendance := filter (\<lambda>r. a_student_id r \<noteq> Integer i) (tbl_attendance db),
                  tbl_student_tasks := filter (\<lambda>r. st_student_id r \<noteq> i) (tbl_student_tasks db),
                  tbl_marks := filter (\<lambda>r. m_student_id r \<noteq> Integer i) (tbl_marks db)\<rparr>
         else db')"

subsection \<open>Student handlers\<close>

text \<open>
  Every handler below is wrapped in \<open>login_required\<close> (lines 179-186), which redirects to the
  login page when the session has no \<open>admin_id\<close>; the handlers are modelled for a session
  that has one.  The redirect each handler ends with carries no state and is left out.
\<close>

definition student_of_form :: "student_form \<Rightarrow> student" where
  "student_of_form f =
     \<lparr>s_id = 0,
      s_usn = strip (f_usn f),
      s_name = strip (f_name f),
      s_email = strip (f_email f),
      s_phone = strip (f_phone f),
      s_class = strip (f_class f),
      s_department = strip (f_department f),
      s_parent_name = strip (form_get (f_parent_name f)),
      s_parent_phone = strip (form_get (f_parent_phone f)),
      s_parent_email = strip (form_get (f_parent_email f))\<rparr>"

definition student_fields_missing :: "student \<Rightarrow> bool" where
  "student_fields_missing r =
     (s_usn r = [] \<or> s_name r = [] \<or> s_email r = [] \<or> s_class r = [] \<or> s_department r = [])"


text \<open>
  \<open>edit_student\<close>, lines 325-358.  The \<open>UPDATE\<close> is not inside a \<open>try\<close>: an
  \<open>IntegrityError\<close> it raised would leave the handler, which is the \<open>Inl\<close> result.
\<close>

definition edit_student :: "int \<Rightarrow> student_form \<Rightarrow> database \<Rightarrow> integrity_error + database \<times> flash list" where
  "edit_student i f db =
     (let row = student_of_form f in
      if student_fields_missing row then Inr (db, [Student_edit_required_fields])
      else if select_student_conflicts db (s_usn row) (s_email row) i \<noteq> []
      then Inr (db, [Usn_or_email_in_use])
      else case update_student db i row of
             Inl e \<Rightarrow> Inl e
           | Inr db' \<Rightarrow> Inr (db', [Student_updated]))"

text \<open>\<open>delete_student\<close>, lines 360-367.\<close>

definition delete_student :: "int \<Rightarrow> database \<Rightarrow> database \<times> flash list" where
  "delete_student i db = (delete_student_row get_db db i, [Student_deleted])"

subsection \<open>Statements on attendance\<close>

text \<open>The parent-key test of a foreign key on \<open>students (id)\<close>.\<close>

definition student_exists :: "database \<Rightarrow> sqlval \<Rightarrow> bool" where
  "student_exists db v =
     (case v of Integer i \<Rightarrow> i \<in> set (map s_id (tbl_students db)) | NonInteger _ \<Rightarrow> False)"

text \<open>
  \<open>INSERT INTO attendance (student_id, date, status)\<close>, lines 94-103: the \<open>CHECK\<close> on
  \<open>status\<close>, \<open>UNIQUE(student_id, date)\<close>, and the foreign key where the connection enforces it.
\<close>

definition insert_attendance ::
  "conn \<Rightarrow> database \<Rightarrow> sqlval \<Rightarrow> string \<Rightarrow> string \<Rightarrow> integrity_error + database" where
  "insert_attendance c db student_id date status =
     (if status \<notin> {''Present'', ''Absent''} then Inl CHECK_constraint_failed
      else if (student_id, date) \<in> set (map (\<lambda>r. (a_student_id r, a_date r)) (tbl_attendance db))
      then Inl UNIQUE_constraint_failed
      else if foreign_keys c \<and> \<not> student_exists db student_id then Inl FOREIGN_KEY_constraint_failed
      else Inr (db\<lparr>tbl_attendance := tbl_attendance db @
                     [\<lparr>a_id = seq_attendance db + 1, a_student_id = student_id,
                       a_date = date, a_status = status\<rparr>],
                   seq_attendance := seq_attendance db + 1\<rparr>))"

text \<open>
  The aggregate of \<open>student_report\<close>, lines 966-976: \<open>COUNT(*)\<close> and the two \<open>SUM(CASE ...)\<close>
  over the attendance rows of one student.  \<open>SUM\<close> over no rows is \<open>NULL\<close>, which the
  handler turns into 0 with \<open>or 0\<close>.
\<close>

definition select_attendance_summary :: "database \<Rightarrow> int \<Rightarrow> nat \<times> nat option \<times> nat option" where
  "select_attendance_summary db student_id =
     (let rows = filter (\<lambda>r. a_student_id r = Integer student_id) (tbl_attendance db)
      in (length rows,
          if rows = [] then None else Some (length (filter (\<lambda>r. a_status r = ''Present'') rows)),
          if rows = [] then None else Some (length (filter (\<lambda>r. a_status r = ''Absent'') rows))))"

definition or_0 :: "nat option \<Rightarrow> nat" where
  "or_0 v = (case v of None \<Rightarrow> 0 | Some n \<Rightarrow> n)"

text \<open>
  \<open>total_days\<close>, \<open>present\<close> and \<open>absent\<close> of lines 974-976.  The handler goes on to
  compute \<open>attendance_percent\<close> from them in floating point (line 977), which is left out.
\<close>

definition attendance_totals :: "database \<Rightarrow> int \<Rightarrow> nat \<times> nat \<times> nat" where
  "attendance_totals db student_id =
     (case select_attendance_summary db student_id of
        (total_days, present_count, absent_count) \<Rightarrow>
          (total_days, or_0 present_count, or_0 absent_count))"

subsection \<open>Attendance handlers\<close>

text \<open>\<open>request.form.get('date', datetime.today().strftime('%Y-%m-%d'))\<close>.\<close>

definition form_date :: "string \<Rightarrow> string option \<Rightarrow> string" where
  "form_date today date = (case date of None \<Rightarrow> today | Some v \<Rightarrow> v)"

text \<open>
  \<open>attendance\<close>, POST branch, lines 377-390.  \<open>student_id\<close> and \<open>status\<close> are form strings;
  \<open>affinity\<close> is the conversion SQLite applies to a string bound to an INTEGER column;
  \<open>date\<close> falls back to \<open>today\<close>, the current date as \<open>YYYY-MM-DD\<close>.
\<close>

definition attendance ::
  "(string \<Rightarrow> sqlval) \<Rightarrow> string \<Rightarrow> string \<Rightarrow> string \<Rightarrow> string option \<Rightarrow> database
     \<Rightarrow> database \<times> flash list" where
  "attendance affinity today student_id status date db =
     (case insert_attendance get_db db (affinity student_id) (form_date today date) status of
        Inr db' \<Rightarrow> (db', [Attendance_marked])
      | Inl e \<Rightarrow> (db, [Attendance_exists]))"






subsection \<open>Statements on task assignments\<close>




subsection \<open>Assignment reconciliation\<close>






subsection \<open>Statements on subjects\<close>




subsection \<open>Subject handlers\<close>



subsection \<open>Statements on marks\<close>



subsection \<open>Bulk marks\<close>





section \<open>Constraints of the schema as properties of a store\<close>

text \<open>\<open>UNIQUE(student_id, date)\<close> of the attendance table.\<close>

definition attendance_unique :: "database \<Rightarrow> bool" where
  "attendance_unique db = distinct (map (\<lambda>r. (a_student_id r, a_date r)) (tbl_attendance db))"

text \<open>The attendance rows of one student on one date.\<close>

definition attendance_records :: "database \<Rightarrow> sqlval \<Rightarrow> string \<Rightarrow> attendance_row list" where
  "attendance_records db student_id date =
     filter (\<lambda>r. a_student_id r = student_id \<and> a_date r = date) (tbl_attendance db)"











section \<open>A small store\<close>

text \<open>
  Two students of different classes, one attendance row, one task with a completed
  assignment, two subjects and one mark, as the handlers would have stored them.
\<close>

definition demo_student1 :: student where
  "demo_student1 =
     \<lparr>s_id = 1, s_usn = ''U1'', s_name = ''Asha'', s_email = ''asha@x.org'', s_phone = [],
      s_class = ''A'', s_department = ''BCA'', s_parent_name = [], s_parent_phone = [],
      s_parent_email = []\<rparr>"

definition demo_student2 :: student where
  "demo_student2 =
     \<lparr>s_id = 2, s_usn = ''U2'', s_name = ''Binu'', s_email = ''binu@x.org'', s_phone = [],
      s_class = ''B'', s_department = ''BCom'', s_parent_name = [], s_parent_phone = [],
      s_parent_email = []\<rparr>"

definition demo_assignment :: student_task where
  "demo_assignment =
     \<lparr>st_id = 1, st_task_id = 1, st_student_id = 1, st_status = ''Completed'',
      st_completed_date = Some ''2024-01-15''\<rparr>"

definition demo_db :: database where
  "demo_db =
     \<lparr>tbl_students = [demo_student1, demo_student2],
      tbl_attendance =
        [\<lparr>a_id = 1, a_student_id = Integer 1, a_date = ''2024-01-01'', a_status = ''Present''\<rparr>],
      tbl_tasks = [\<lparr>t_id = 1, t_title = ''Essay'', t_description = [], t_due_date = ''2024-02-01''\<rparr>],
      tbl_student_tasks = [demo_assignment],
      tbl_subjects =
        [\<lparr>sub_id = 1, sub_name = ''Algebra'', sub_course = ''BSc'', sub_semester = Integer 1,
          sub_description = []\<rparr>,
         \<lparr>sub_id = 2, sub_name = ''Geometry'', sub_course = ''BSc'', sub_semester = Integer 1,
          sub_description = []\<rparr>],
      tbl_marks =
        [\<lparr>m_id = 1, m_student_id = Integer 1, m_subject_id = Integer 1, m_exam_type = ''Midterm'',
          m_marks_obtained = ''40'', m_max_marks = ''50'', m_exam_date = None, m_remarks = []\<rparr>],
      seq_students = 2, seq_attendance = 1, seq_tasks = 1, seq_student_tasks = 1,
      seq_subjects = 2, seq_marks = 1\<rparr>"

text \<open>A conversion of form strings for the examples: the decimal digits 1 and 2.\<close>

definition demo_affinity :: "string \<Rightarrow> sqlval" where
  "demo_affinity s =
     (if s = ''1'' then Integer 1 else if s = ''2'' then Integer 2 else NonInteger s)"



section \<open>Students: unique usn and email\<close>




text \<open>
  After the conflict test of \<open>edit_student\<close> has passed, its \<open>UPDATE\<close> cannot violate a
  \<open>UNIQUE\<close> constraint: the handler never leaves with an \<open>IntegrityError\<close>.
\<close>

lemma edit_student_never_raises:
  "\<exists>db' msgs. edit_student i f db = Inr (db', msgs)"
  by (simp add: edit_student_def update_student_def Let_def)



section \<open>Attendance: one record per student and date\<close>

lemma attendance_records_nonempty:
  "(attendance_records db v d \<noteq> []) = ((v, d) \<in> set (map (\<lambda>r. (a_student_id r, a_date r)) (tbl_attendance db)))"
  by (auto simp: attendance_records_def filter_empty_conv)

lemma distinct_key_filter_le1:
  "distinct (map f xs) \<Longrightarrow> length (filter (\<lambda>r. f r = k) xs) \<le> 1"
proof (induction xs)
  case Nil
  then show ?case by simp
next
  case (Cons x xs)
  show ?case
  proof (cases "f x = k")
    case True
    with Cons.prems have "k \<notin> f ` set xs" by auto
    then have "filter (\<lambda>r. f r = k) xs = []" by (auto simp: filter_empty_conv)
    with True show ?thesis by simp
  next
    case False
    with Cons show ?thesis by simp
  qed
qed

lemma attendance_records_le1:
  assumes "attendance_unique db"
  shows "length (attendance_records db v d) \<le> 1"
proof -
  have "attendance_records db v d = filter (\<lambda>r. (a_student_id r, a_date r) = (v, d)) (tbl_attendance db)"
    by (simp add: attendance_records_def)
  with distinct_key_filter_le1[of "\<lambda>r. (a_student_id r, a_date r)" "tbl_attendance db" "(v, d)"] assms
  show ?thesis by (simp add: attendance_unique_def)
qed

lemma attendance_records_exactly_one:
  assumes "attendance_unique db" and "attendance_records db v d \<noteq> []"
  shows "length (attendance_records db v d) = 1"
  using attendance_records_le1[OF assms(1), of v d] assms(2)
  by (cases "attendance_records db v d") auto

lemma attendance_when_recorded:
  assumes "attendance_records db (affinity student_id) (form_date today date) \<noteq> []"
  shows "attendance affinity today student_id status date db = (db, [Attendance_exists])"
  using assms unfolding attendance_records_nonempty
  by (simp add: attendance_def insert_attendance_def form_date_def Let_def)

lemma attendance_valid_status_records:
  assumes "status \<in> {''Present'', ''Absent''}"
  shows "attendance_records (fst (attendance affinity today student_id status date db))
           (affinity student_id) (form_date today date) \<noteq> []"
  using assms unfolding attendance_records_nonempty
  by (auto simp: attendance_def insert_attendance_def form_date_def Let_def get_db_def)

lemma attendance_keeps_unique:
  assumes "attendance_unique db"
  shows "attendance_unique (fst (attendance affinity today student_id status date db))"
  using assms
  by (auto simp: attendance_def insert_attendance_def form_date_def Let_def get_db_def attendance_unique_def)

text \<open>
  Claim C5.  On a store whose attendance table satisfies its \<open>UNIQUE(student_id, date)\<close>:
  when a record for the student and date of the form already exists, \<open>attendance\<close> answers
  with the message that attendance already exists, returns the store as it was, and the store
  holds exactly one record for the pair.  In particular, after a first marking with a status
  the table accepts, a second marking of the same student and date, with any status, is
  answered that way, changes nothing, and exactly one record for the pair exists.
\<close>

theorem attendance_duplicate_rejected:
  assumes "attendance_unique db"
  shows "(attendance_records db (affinity student_id) (form_date today date) \<noteq> [] \<longrightarrow>
            attendance affinity today student_id status date db = (db, [Attendance_exists])
          \<and> length (attendance_records db (affinity student_id) (form_date today date)) = 1)
       \<and> (status \<in> {''Present'', ''Absent''} \<longrightarrow>
            (let db1 = fst (attendance affinity today student_id status date db)
             in attendance affinity today student_id status' date db1 = (db1, [Attendance_exists])
              \<and> length (attendance_records db1 (affinity student_id) (form_date today date)) = 1))"
proof (intro conjI impI)
  assume "attendance_records db (affinity student_id) (form_date today date) \<noteq> []"
  then show "attendance affinity today student_id status date db = (db, [Attendance_exists])"
    and "length (attendance_records db (affinity student_id) (form_date today date)) = 1"
    using assms by (simp_all add: attendance_when_recorded attendance_records_exactly_one)
next
  assume valid: "status \<in> {''Present'', ''Absent''}"
  define db1 where "db1 = fst (attendance affinity today student_id status date db)"
  have rec: "attendance_records db1 (affinity student_id) (form_date today date) \<noteq> []"
    unfolding db1_def by (rule attendance_valid_status_records[OF valid])
  have uniq: "attendance_unique db1"
    unfolding db1_def by (rule attendance_keeps_unique[OF assms])
  from rec uniq
  have "attendance affinity today student_id status' date db1 = (db1, [Attendance_exists])
      \<and> length (attendance_records db1 (affinity student_id) (form_date today date)) = 1"
    by (simp add: attendance_when_recorded attendance_records_exactly_one)
  then show "let db1 = fst (attendance affinity today student_id status date db)
     in attendance affinity today student_id status' date db1 = (db1, [Attendance_exists])
      \<and> length (attendance_records db1 (affinity student_id) (form_date today date)) = 1"
    unfolding db1_def Let_def .
qed

theorem attendance_duplicate_rejected_witness:
  "attendance demo_affinity ''2024-01-01'' ''1'' ''Absent'' None demo_db
     = (demo_db, [Attendance_exists])
   \<and> length (attendance_records demo_db (Integer 1) ''2024-01-01'') = 1
   \<and> (let db1 = fst (attendance demo_affinity ''2024-01-01'' ''2'' ''Present'' None demo_db)
      in attendance demo_affinity ''2024-01-01'' ''2'' ''Absent'' None db1 = (db1, [Attendance_exists])
       \<and> length (attendance_records db1 (Integer 2) ''2024-01-01'') = 1)"
proof -
  have u: "attendance_unique demo_db"
    by (simp add: attendance_unique_def demo_db_def)
  have r: "attendance_records demo_db (demo_affinity ''1'') (form_date ''2024-01-01'' None) \<noteq> []"
    by (simp add: attendance_records_def demo_db_def demo_affinity_def form_date_def)
  have v: "''Present'' \<in> {''Present'', ''Absent''}"
    by simp
  from attendance_duplicate_rejected[OF u, of demo_affinity "''1''" "''2024-01-01''" None
      "''Absent''" "''Absent''"] r
  have first: "attendance demo_affinity ''2024-01-01'' ''1'' ''Absent'' None demo_db
       = (demo_db, [Attendance_exists])
     \<and> length (attendance_records demo_db (Integer 1) ''2024-01-01'') = 1"
    by (simp add: demo_affinity_def form_date_def)
  from attendance_duplicate_rejected[OF u, of demo_affinity "''2''" "''2024-01-01''" None
      "''Present''" "''Absent''"] v
  have second: "let db1 = fst (attendance demo_affinity ''2024-01-01'' ''2'' ''Present'' None demo_db)
      in attendance demo_affinity ''2024-01-01'' ''2'' ''Absent'' None db1 = (db1, [Attendance_exists])
       \<and> length (attendance_records db1 (Integer 2) ''2024-01-01'') = 1"
    by (simp add: demo_affinity_def form_date_def)
  from first second show ?thesis by simp
qed

section \<open>Subjects: unique name, course and semester\<close>






section \<open>Bulk marks: one row per position with both scores\<close>







section \<open>Assignment reconciliation\<close>





















section \<open>Bulk attendance\<close>






















section \<open>Deleting a student\<close>

text \<open>
  On a connection that enforces foreign keys the \<open>DELETE\<close> takes the attendance,
  assignment and mark rows of the student with it, as the schema declares.
\<close>

lemma delete_student_row_cascades:
  assumes "foreign_keys c"
  shows "filter (\<lambda>r. a_student_id r = Integer i) (tbl_attendance (delete_student_row c db i)) = []
       \<and> filter (\<lambda>r. st_student_id r = i) (tbl_student_tasks (delete_student_row c db i)) = []
       \<and> filter (\<lambda>r. m_student_id r = Integer i) (tbl_marks (delete_student_row c db i)) = []"
  using assms by (simp add: delete_student_row_def Let_def filter_empty_conv)

text \<open>
  \<open>delete_student\<close> works on the connection of \<open>get_db\<close>: it removes the student row and
  leaves the three child tables as they were.
\<close>

lemma delete_student_child_tables:
  "tbl_students (fst (delete_student i db)) = filter (\<lambda>r. s_id r \<noteq> i) (tbl_students db)
   \<and> tbl_attendance (fst (delete_student i db)) = tbl_attendance db
   \<and> tbl_student_tasks (fst (delete_student i db)) = tbl_student_tasks db
   \<and> tbl_marks (fst (delete_student i db)) = tbl_marks db"
  by (simp add: delete_student_def delete_student_row_def get_db_def Let_def)

text \<open>
  Claim C1 at a failing input.  Student 1 of the small store has one attendance row, one
  assignment and one mark.  After \<open>delete_student 1\<close> the student row is gone and the three
  child rows are all still there; the attendance aggregate of \<open>student_report\<close> for id 1
  still counts one day, present.
\<close>

theorem delete_student_keeps_child_rows:
  "tbl_students (fst (delete_student 1 demo_db)) = [demo_student2]
   \<and> filter (\<lambda>r. a_student_id r = Integer 1) (tbl_attendance (fst (delete_student 1 demo_db)))
       = [\<lparr>a_id = 1, a_student_id = Integer 1, a_date = ''2024-01-01'', a_status = ''Present''\<rparr>]
   \<and> filter (\<lambda>r. st_student_id r = 1) (tbl_student_tasks (fst (delete_student 1 demo_db)))
       = [demo_assignment]
   \<and> filter (\<lambda>r. m_student_id r = Integer 1) (tbl_marks (fst (delete_student 1 demo_db)))
       = [\<lparr>m_id = 1, m_student_id = Integer 1, m_subject_id = Integer 1, m_exam_type = ''Midterm'',
           m_marks_obtained = ''40'', m_max_marks = ''50'', m_exam_date = None, m_remarks = []\<rparr>]
   \<and> attendance_totals (fst (delete_student 1 demo_db)) 1 = (1, 1, 0)"
  by (simp add: delete_student_child_tables attendance_totals_def select_attendance_summary_def
      or_0_def Let_def)
     (simp add: demo_db_def demo_student1_def demo_student2_def demo_assignment_def)

section \<open>The attendance aggregate\<close>

text \<open>A student without attendance rows has the totals 0, 0 and 0.\<close>

lemma attendance_totals_no_rows:
  assumes "filter (\<lambda>r. a_student_id r = Integer i) (tbl_attendance db) = []"
  shows "attendance_totals db i = (0, 0, 0)"
  using assms
  by (simp add: attendance_totals_def select_attendance_summary_def or_0_def Let_def)

text \<open>
  Under the \<open>CHECK\<close> on \<open>status\<close> every row counts as present or as absent, so the present
  and absent days add up to the total days.
\<close>

lemma length_filter_two_values:
  "\<forall>x \<in> set xs. f x = a \<or> f x = b \<Longrightarrow> a \<noteq> b \<Longrightarrow>
     length (filter (\<lambda>x. f x = a) xs) + length (filter (\<lambda>x. f x = b) xs) = length xs"
  by (induction xs) auto

lemma attendance_totals_add_up:
  assumes "\<forall>r \<in> set (tbl_attendance db). a_status r = ''Present'' \<or> a_status r = ''Absent''"
    and "attendance_totals db i = (total_days, present, absent)"
  shows "present + absent = total_days"
proof -
  let ?rows = "filter (\<lambda>r. a_student_id r = Integer i) (tbl_attendance db)"
  from assms(1) have "\<forall>r \<in> set ?rows. a_status r = ''Present'' \<or> a_status r = ''Absent''"
    by simp
  then have "length (filter (\<lambda>r. a_status r = ''Present'') ?rows)
           + length (filter (\<lambda>r. a_status r = ''Absent'') ?rows) = length ?rows"
    by (rule length_filter_two_values) simp
  with assms(2) show ?thesis
    by (cases "?rows = []")
       (auto simp: attendance_totals_def select_attendance_summary_def or_0_def Let_def)
qed

end
